theory Spec2Isabelle
  imports Main
begin

section \<open>JavaScript values used by the build function\<close>

text \<open>
  File contents travel either as a JavaScript string or as a Buffer. Both have
  \<open>toString()\<close>; only the empty string is falsy, an empty Buffer is an object and
  therefore truthy. A Buffer is modelled by the text it decodes to.
\<close>

datatype file_contents = JString string | JBuffer string

fun toString :: "file_contents \<Rightarrow> string" where
  "toString (JString s) = s"
| "toString (JBuffer b) = b"

fun truthy :: "file_contents \<Rightarrow> bool" where
  "truthy (JString s) = (s \<noteq> [])"
| "truthy (JBuffer b) = True"

text \<open>\<open>String.prototype.endsWith\<close> and \<open>charAt(0)\<close>.\<close>

definition endsWith :: "string \<Rightarrow> string \<Rightarrow> bool" where
  "endsWith s suffix = (take (length suffix) (rev s) = rev suffix)"

definition charAt0 :: "string \<Rightarrow> string" where
  "charAt0 s = take 1 s"

text \<open>\<open>Array.prototype.join\<close> on a list of strings.\<close>

fun joinWith :: "string \<Rightarrow> string list \<Rightarrow> string" where
  "joinWith sep [] = []"
| "joinWith sep [x] = x"
| "joinWith sep (x # y # ys) = x @ sep @ joinWith sep (y # ys)"

text \<open>
  A plain object \<open>{}\<close> used as a dictionary. Its own properties are a partial map;
  reading a key that is not an own property falls back to \<open>Object.prototype\<close>, whose
  members (functions, and the prototype itself for \<open>__proto__\<close>) are not strings.
  Assigning a string to \<open>__proto__\<close> goes to the inherited setter, which ignores
  values that are not objects, so no own property is made.
\<close>

datatype js_value = JUndefined | JText string | JInherited string

definition objectPrototypeNames :: "string list" where
  "objectPrototypeNames =
     [''constructor'', ''__proto__'', ''hasOwnProperty'', ''isPrototypeOf'',
      ''propertyIsEnumerable'', ''toLocaleString'', ''toString'', ''valueOf'',
      ''__defineGetter__'', ''__defineSetter__'', ''__lookupGetter__'', ''__lookupSetter__'']"

definition jsGet :: "(string \<rightharpoonup> string) \<Rightarrow> string \<Rightarrow> js_value" where
  "jsGet own key =
     (case own key of
        Some v \<Rightarrow> JText v
      | None \<Rightarrow> if key \<in> set objectPrototypeNames then JInherited key else JUndefined)"

definition jsSet :: "(string \<rightharpoonup> string) \<Rightarrow> string \<Rightarrow> string \<Rightarrow> (string \<rightharpoonup> string)" where
  "jsSet own key v = (if key = ''__proto__'' then own else own(key \<mapsto> v))"

definition newline :: string where
  "newline = [CHR 0x0A]"

text \<open>\<open>message.split('\n')[0]\<close>: the text before the first line feed.\<close>

definition firstLine :: "string \<Rightarrow> string" where
  "firstLine s = takeWhile (\<lambda>c. c \<noteq> CHR 0x0A) s"

section \<open>External collaborators\<close>

text \<open>
  Node's \<open>path\<close> module and the \<open>subdir\<close> package are libraries, not code of this
  repository: the build function is modelled over any implementation of them.
\<close>

record path_module =
  isAbsolute :: "string \<Rightarrow> bool"
  basename :: "string \<Rightarrow> string"
  dirname :: "string \<Rightarrow> string"
  join :: "string \<Rightarrow> string \<Rightarrow> string"
  resolve :: "string \<Rightarrow> string \<Rightarrow> string"
  relative :: "string \<Rightarrow> string \<Rightarrow> string"

text \<open>A rejected \<open>sander.readFile\<close>: the error object with its \<open>code\<close>.\<close>

datatype fs_error = FsError (code: string)

text \<open>
  Everything the build function closes over: the libraries, the enclosing builder's
  \<open>importFile\<close> (\<open>None\<close> for \<open>undefined\<close>/\<open>null\<close>), the disk as seen by
  \<open>sander.readFile\<close>, the directory \<open>base\<close> (\<open>this.src\<close> in the unnamed file),
  \<open>micromatch.filter\<close> (pattern first, then the file), the \<open>include\<close> option as the
  caller gave it (\<open>None\<close> when absent) and \<open>options.loadPaths\<close> after normalisation
  (\<open>None\<close> when the option is not set).
\<close>

record env =
  path :: path_module
  subdir :: "string \<Rightarrow> string \<Rightarrow> bool"
  importFile :: "string \<Rightarrow> file_contents option"
  readFile :: "string \<Rightarrow> fs_error + file_contents"
  base :: string
  micromatch :: "string \<Rightarrow> string \<Rightarrow> bool"
  "include" :: "string option"
  loadPaths :: "string list option"

section \<open>The importer\<close>

record resolved =
  contents :: string
  "file" :: string

text \<open>One call of the existence check: a lookup in the build graph or a read from disk.\<close>

datatype access = GraphLookup string | DiskRead string

datatype import_error =
    Error string
  | AssertionError string
  | ReadFailure fs_error

subsection \<open>Candidates\<close>

text \<open>
  \<open>hasSassExt || hasScssExt\<close> in src/index.js; the unnamed file tests the regular
  expression \<open>/\.s[ca]ss$/\<close>, which accepts the same strings.
\<close>

definition hasExtension :: "string \<Rightarrow> bool" where
  "hasExtension arg = (endsWith arg ''.sass'' \<or> endsWith arg ''.scss'')"

definition hasUnderscore :: "path_module \<Rightarrow> string \<Rightarrow> bool" where
  "hasUnderscore P arg = (charAt0 (basename P arg) = ''_'')"

definition candidates :: "path_module \<Rightarrow> string \<Rightarrow> string list" where
  "candidates P arg =
     (let argBasename = basename P arg; argDirname = dirname P arg in
      if \<not> hasUnderscore P arg then
        if hasExtension arg then [join P argDirname (''_'' @ argBasename), arg]
        else [join P argDirname (''_'' @ argBasename @ ''.scss''),
              join P argDirname (''_'' @ argBasename @ ''.sass''),
              arg @ ''.scss'',
              arg @ ''.sass'']
      else if hasExtension arg then [arg]
      else [arg @ ''.scss'', arg @ ''.sass''])"

subsection \<open>The existence check\<close>

text \<open>
  The function mapped over the candidates. \<open>root\<close> is \<open>fakeBase\<close> in src/index.js
  and \<open>base\<close> in the unnamed file. The first component records which store was asked.
\<close>

definition checkCandidate ::
  "env \<Rightarrow> string \<Rightarrow> string \<Rightarrow> string \<Rightarrow> access \<times> (fs_error + resolved option)" where
  "checkCandidate E root loadPath candidate0 =
     (let candidate = resolve (path E) loadPath candidate0 in
      if subdir E root candidate then
        (GraphLookup (relative (path E) root candidate),
         (case importFile E (relative (path E) root candidate) of
            None \<Rightarrow> Inr None
          | Some c \<Rightarrow>
              if truthy c then Inr (Some \<lparr>contents = toString c, file = candidate\<rparr>)
              else Inr None))
      else
        (DiskRead candidate,
         (case readFile E candidate of
            Inr c \<Rightarrow> Inr (Some \<lparr>contents = toString c, file = candidate\<rparr>)
          | Inl error \<Rightarrow> if code error \<noteq> ''ENOENT'' then Inl error else Inr None)))"

text \<open>
  \<open>Promise.map(candidates, ...).filter(x => x)\<close>: every candidate is checked; a
  rejected check rejects the whole map, otherwise the found files are kept in
  candidate order. When several reads fail, the model reports the first in candidate order.
\<close>

fun settle :: "('e + 'a option) list \<Rightarrow> 'e + 'a list" where
  "settle [] = Inr []"
| "settle (Inl e # rs) = Inl e"
| "settle (Inr x # rs) =
     (case settle rs of
        Inl e \<Rightarrow> Inl e
      | Inr xs \<Rightarrow> Inr (case x of None \<Rightarrow> xs | Some v \<Rightarrow> v # xs))"

definition accessesIn :: "env \<Rightarrow> string \<Rightarrow> string \<Rightarrow> string \<Rightarrow> access list" where
  "accessesIn E root arg loadPath =
     map (\<lambda>c. fst (checkCandidate E root loadPath c)) (candidates (path E) arg)"

definition existingCandidates ::
  "env \<Rightarrow> string \<Rightarrow> string \<Rightarrow> string \<Rightarrow> fs_error + resolved list" where
  "existingCandidates E root arg loadPath =
     settle (map (\<lambda>c. snd (checkCandidate E root loadPath c)) (candidates (path E) arg))"

subsection \<open>Walking the load paths\<close>

definition ambiguousMessage :: "string \<Rightarrow> string \<Rightarrow> string list \<Rightarrow> string" where
  "ambiguousMessage arg importerFile files =
     newline @ replicate 16 CHR '' '' @
     ''It'' @ [CHR 0x27] @ ''s not clear which file to import for '' @ [CHR 0x27] @
     ''@import '' @ [CHR 0x22] @ arg @ [CHR 0x22, CHR 0x27] @ '' in file '' @
     [CHR 0x22] @ importerFile @ [CHR 0x22] @ ''.'' @
     newline @ replicate 16 CHR '' '' @ ''Candidates:'' @
     newline @ replicate 16 CHR '' '' @ joinWith newline files @
     newline @ replicate 16 CHR '' '' @
     ''Please delete or rename all but one of these files.'' @
     newline @ replicate 14 CHR '' ''"

definition notFoundMessage :: "string \<Rightarrow> string" where
  "notFoundMessage arg = ''File to import not found or unreadable: '' @ arg"

text \<open>
  The \<open>for (const loadPath of loadPaths)\<close> loop and the \<open>throw\<close> after it. The list
  of accesses made so far is threaded through.
\<close>

fun tryLoadPaths ::
  "env \<Rightarrow> string \<Rightarrow> string \<Rightarrow> string \<Rightarrow> string list \<Rightarrow> access list
     \<Rightarrow> (import_error + resolved) \<times> access list" where
  "tryLoadPaths E root arg importerFile [] log = (Inl (Error (notFoundMessage arg)), log)"
| "tryLoadPaths E root arg importerFile (loadPath # rest) log =
     (let log' = log @ accessesIn E root arg loadPath in
      case existingCandidates E root arg loadPath of
        Inl error \<Rightarrow> (Inl (ReadFailure error), log')
      | Inr found \<Rightarrow>
          if length found = 0 then tryLoadPaths E root arg importerFile rest log'
          else if length found > 1 then
            (Inl (Error (ambiguousMessage arg importerFile (map file found))), log')
          else (Inr (found ! 0), log'))"

definition searchDirectories :: "env \<Rightarrow> string \<Rightarrow> string list" where
  "searchDirectories E importerFile =
     [dirname (path E) importerFile] @ (case loadPaths E of None \<Rightarrow> [] | Some ps \<Rightarrow> ps)"

text \<open>
  The body of the coroutine. \<open>console.assert\<close> throws an AssertionError on the Node
  versions the package was written for (before Node 10); the loop does not depend on it.
\<close>

definition resolveImport ::
  "env \<Rightarrow> string \<Rightarrow> string \<Rightarrow> string \<Rightarrow> string \<Rightarrow> access list
     \<Rightarrow> (import_error + resolved) \<times> access list" where
  "resolveImport E root entryFile arg prev log =
     (let importerFile = (if prev = ''stdin'' then entryFile else prev) in
      if \<not> isAbsolute (path E) importerFile then
        (Inl (AssertionError ''importing file should be absolute at this point''), log)
      else tryLoadPaths E root arg importerFile (searchDirectories E importerFile) log)"

section \<open>The build function\<close>

text \<open>
  The compiler (\<open>sass.render\<close>) is external. Seen from the build function it either
  finishes, with an error or with the CSS, or calls the \<open>importer\<close> hook with an
  import specifier and the file the import was met in, and goes on from the answer.
\<close>

record sass_error =
  errMessage :: string
  errFile :: string
  errLine :: int
  errColumn :: int

datatype sass_run =
    Finished "sass_error + string"
  | Import string string "import_error + resolved \<Rightarrow> sass_run"

text \<open>The error thrown by the unnamed file: \<open>new CodeError(message, {file, contents, line, column})\<close>.\<close>

record code_error =
  ceMessage :: string
  ceFile :: string
  ceContents :: js_value
  ceLine :: int
  ceColumn :: int

datatype build_error = SassError sass_error | CodeError code_error

datatype build_result =
    PassThrough file_contents
  | NoOutput
  | Output "(string \<times> string) list"
  | Thrown build_error

text \<open>
  The memos of one compile (the own properties of the two plain objects), and two counters kept for the properties below: the
  accesses made by the existence check and the number of calls of \<open>render\<close>.
\<close>

record build_state =
  rememberedImportContents :: "string \<rightharpoonup> string"
  resolvedImportPaths :: "string \<rightharpoonup> string"
  accesses :: "access list"
  renderCalls :: nat

primrec runSass ::
  "(string \<Rightarrow> string \<Rightarrow> build_state \<Rightarrow> (import_error + resolved) \<times> build_state)
     \<Rightarrow> sass_run \<Rightarrow> build_state \<Rightarrow> (sass_error + string) \<times> build_state" where
  "runSass importer (Finished r) = (\<lambda>st. (r, st))"
| "runSass importer (Import arg prev k) =
     (\<lambda>st. case importer arg prev st of (answer, st') \<Rightarrow> runSass importer (k answer) st')"

subsection \<open>src/index.js\<close>

text \<open>\<open>Object.assign({}, defaults, options)\<close> followed by \<open>micromatch.filter(options.include)\<close>.\<close>

definition defaultInclude_index :: string where
  "defaultInclude_index = ''**/*.scss''"

definition included_index :: "env \<Rightarrow> string \<Rightarrow> bool" where
  "included_index E f =
     micromatch E (case include E of None \<Rightarrow> defaultInclude_index | Some pattern \<Rightarrow> pattern) f"

definition fakeBase :: "string \<Rightarrow> string" where
  "fakeBase platform =
     (if platform = ''win32'' then ''X:'' @ [CHR 0x5C] @ ''__TRIP_SASS__'' else ''/__TRIP_SASS__'')"

text \<open>\<open>file.replace(scssExt, '')\<close> with \<open>scssExt = /\.scss$/\<close>.\<close>

definition replaceScssExt :: "string \<Rightarrow> string" where
  "replaceScssExt f = (if endsWith f ''.scss'' then take (length f - 5) f else f)"

definition importer_index ::
  "env \<Rightarrow> string \<Rightarrow> string \<Rightarrow> string \<Rightarrow> string \<Rightarrow> build_state
     \<Rightarrow> (import_error + resolved) \<times> build_state" where
  "importer_index E platform fakeEntryFile arg prev st =
     (case resolveImport E (fakeBase platform) fakeEntryFile arg prev (accesses st) of
        (Inr result, log) \<Rightarrow>
          (Inr result,
           st\<lparr>resolvedImportPaths := jsSet (resolvedImportPaths st) arg (file result),
              rememberedImportContents :=
                jsSet (rememberedImportContents st) (file result) (contents result),
              accesses := log\<rparr>)
      | (Inl error, log) \<Rightarrow> (Inl error, st\<lparr>accesses := log\<rparr>))"

definition tripSass_index ::
  "env \<Rightarrow> string \<Rightarrow> (string \<Rightarrow> sass_run) \<Rightarrow> string \<Rightarrow> file_contents \<Rightarrow> build_state
     \<Rightarrow> build_result \<times> build_state" where
  "tripSass_index E platform render f fileContents st =
     (if \<not> included_index E f then (PassThrough fileContents, st)
      else if charAt0 (basename (path E) f) = ''_'' then (NoOutput, st)
      else
        let outputFile = replaceScssExt f @ ''.css''; source = toString fileContents in
        if source = [] then (Output [(outputFile, [])], st)
        else
          let fakeEntryFile = resolve (path E) (fakeBase platform) f;
              st0 = st\<lparr>rememberedImportContents := Map.empty,
                      resolvedImportPaths := [''stdin'' \<mapsto> fakeEntryFile],
                      renderCalls := Suc (renderCalls st)\<rparr>
          in case runSass (importer_index E platform fakeEntryFile) (render source) st0 of
               (Inr css, st') \<Rightarrow> (Output [(outputFile, css)], st')
             | (Inl error, st') \<Rightarrow> (Thrown (SassError error), st'))"

subsection \<open>The unnamed file\<close>

definition defaultInclude_part :: string where
  "defaultInclude_part = ''**/*.{sass,scss}''"

definition included_part :: "env \<Rightarrow> string \<Rightarrow> bool" where
  "included_part E f =
     micromatch E (case include E of None \<Rightarrow> defaultInclude_part | Some pattern \<Rightarrow> pattern) f"

text \<open>\<open>file.replace(eitherExtension, '')\<close> with \<open>eitherExtension = /\.s[ca]ss$/\<close>.\<close>

definition replaceEitherExtension :: "string \<Rightarrow> string" where
  "replaceEitherExtension f =
     (if endsWith f ''.scss'' \<or> endsWith f ''.sass'' then take (length f - 5) f else f)"

definition importer_part ::
  "env \<Rightarrow> string \<Rightarrow> string \<Rightarrow> string \<Rightarrow> build_state
     \<Rightarrow> (import_error + resolved) \<times> build_state" where
  "importer_part E absoluteEntryFile arg prev st =
     (case resolveImport E (base E) absoluteEntryFile arg prev (accesses st) of
        (Inr result, log) \<Rightarrow>
          (Inr result,
           st\<lparr>rememberedImportContents :=
                jsSet (rememberedImportContents st) (file result) (contents result),
              accesses := log\<rparr>)
      | (Inl error, log) \<Rightarrow> (Inl error, st\<lparr>accesses := log\<rparr>))"

text \<open>The \<open>catch\<close> block: the compiler's error as a CodeError.\<close>

definition toCodeError ::
  "string \<Rightarrow> string \<Rightarrow> (string \<rightharpoonup> string) \<Rightarrow> sass_error \<Rightarrow> code_error" where
  "toCodeError absoluteEntryFile source remembered error =
     \<lparr>ceMessage = firstLine (errMessage error),
      ceFile = (if errFile error = ''stdin'' then absoluteEntryFile else errFile error),
      ceContents = (if errFile error = ''stdin'' then JText source
                    else jsGet remembered (errFile error)),
      ceLine = errLine error,
      ceColumn = errColumn error\<rparr>"

definition tripSass_part ::
  "env \<Rightarrow> (string \<Rightarrow> sass_run) \<Rightarrow> string \<Rightarrow> file_contents \<Rightarrow> build_state
     \<Rightarrow> build_result \<times> build_state" where
  "tripSass_part E render f fileContents st =
     (if \<not> included_part E f then (PassThrough fileContents, st)
      else if charAt0 (basename (path E) f) = ''_'' then (NoOutput, st)
      else
        let outputFile = replaceEitherExtension f @ ''.css''; source = toString fileContents in
        if source = [] then (Output [(outputFile, [])], st)
        else
          let absoluteEntryFile = resolve (path E) (base E) f;
              st0 = st\<lparr>rememberedImportContents := Map.empty,
                      renderCalls := Suc (renderCalls st)\<rparr>
          in case runSass (importer_part E absoluteEntryFile) (render source) st0 of
               (Inr css, st') \<Rightarrow> (Output [(outputFile, css)], st')
             | (Inl error, st') \<Rightarrow>
                 (Thrown (CodeError (toCodeError absoluteEntryFile source
                    (rememberedImportContents st') error)), st'))"

section \<open>A POSIX file system to run the model on\<close>

text \<open>
  Node's \<open>path.posix\<close> functions on byte strings, with the working directory as a
  parameter, for evaluating the build function on concrete trees.
\<close>

fun splitOn :: "char \<Rightarrow> string \<Rightarrow> string list" where
  "splitOn d [] = [[]]"
| "splitOn d (c # cs) =
     (if c = d then [] # splitOn d cs
      else (case splitOn d cs of [] \<Rightarrow> [[c]] | s # ss \<Rightarrow> (c # s) # ss))"

definition splitSlash :: "string \<Rightarrow> string list" where
  "splitSlash p = splitOn CHR ''/'' p"

text \<open>\<open>normalizeString\<close>: drops empty and \<open>.\<close> segments and resolves \<open>..\<close>.\<close>

fun normalizeSegments :: "bool \<Rightarrow> string list \<Rightarrow> string list \<Rightarrow> string list" where
  "normalizeSegments allowAboveRoot acc [] = rev acc"
| "normalizeSegments allowAboveRoot acc (s # ss) =
     (if s = [] \<or> s = ''.'' then normalizeSegments allowAboveRoot acc ss
      else if s = ''..'' then
        (case acc of
           [] \<Rightarrow> normalizeSegments allowAboveRoot (if allowAboveRoot then [s] else []) ss
         | t # ts \<Rightarrow>
             if t = ''..'' then normalizeSegments allowAboveRoot (s # acc) ss
             else normalizeSegments allowAboveRoot ts ss)
      else normalizeSegments allowAboveRoot (s # acc) ss)"

definition posix_isAbsolute :: "string \<Rightarrow> bool" where
  "posix_isAbsolute p = (take 1 p = ''/'')"

definition posix_normalize :: "string \<Rightarrow> string" where
  "posix_normalize p =
     (if p = [] then ''.''
      else
        let absolute = posix_isAbsolute p;
            trailingSeparator = (last p = CHR ''/'');
            body = joinWith ''/'' (normalizeSegments (\<not> absolute) [] (splitSlash p))
        in if body = [] then (if absolute then ''/'' else if trailingSeparator then ''./'' else ''.'')
           else (if absolute then ''/'' else []) @ body @ (if trailingSeparator then ''/'' else []))"

definition posix_join :: "string \<Rightarrow> string \<Rightarrow> string" where
  "posix_join a b =
     (let joined = joinWith ''/'' (filter (\<lambda>x. x \<noteq> []) [a, b]) in
      if joined = [] then ''.'' else posix_normalize joined)"

definition posix_resolve :: "string \<Rightarrow> string \<Rightarrow> string \<Rightarrow> string" where
  "posix_resolve cwd a b =
     (let step = (\<lambda>p (absolute, resolvedPath).
                    if absolute \<or> p = [] then (absolute, resolvedPath)
                    else (posix_isAbsolute p, p @ ''/'' @ resolvedPath));
          (absolute, resolvedPath) = step cwd (step a (step b (False, [])));
          body = joinWith ''/'' (normalizeSegments (\<not> absolute) [] (splitSlash resolvedPath))
      in if absolute then ''/'' @ body else if body = [] then ''.'' else body)"

definition posix_dirname :: "string \<Rightarrow> string" where
  "posix_dirname p =
     (case p of
        [] \<Rightarrow> ''.''
      | c # rest \<Rightarrow>
          let r = dropWhile (\<lambda>x. x \<noteq> CHR ''/'') (dropWhile (\<lambda>x. x = CHR ''/'') (rev rest)) in
          if r = [] then (if c = CHR ''/'' then ''/'' else ''.'')
          else if c = CHR ''/'' \<and> length r = 1 then ''//''
          else c # rev (tl r))"

definition posix_basename :: "string \<Rightarrow> string" where
  "posix_basename p = rev (takeWhile (\<lambda>x. x \<noteq> CHR ''/'') (dropWhile (\<lambda>x. x = CHR ''/'') (rev p)))"

fun dropCommon :: "string list \<Rightarrow> string list \<Rightarrow> string list \<times> string list" where
  "dropCommon (x # xs) (y # ys) = (if x = y then dropCommon xs ys else (x # xs, y # ys))"
| "dropCommon xs ys = (xs, ys)"

definition posix_relative :: "string \<Rightarrow> string \<Rightarrow> string \<Rightarrow> string" where
  "posix_relative cwd from to =
     (let fromSegments = normalizeSegments False [] (splitSlash (posix_resolve cwd [] from));
          toSegments = normalizeSegments False [] (splitSlash (posix_resolve cwd [] to));
          (up, down) = dropCommon fromSegments toSegments
      in joinWith ''/'' (map (\<lambda>_. ''..'') up @ down))"

definition posix_path :: "string \<Rightarrow> path_module" where
  "posix_path cwd =
     \<lparr>isAbsolute = posix_isAbsolute, basename = posix_basename, dirname = posix_dirname,
      join = posix_join, resolve = posix_resolve cwd, relative = posix_relative cwd\<rparr>"

text \<open>\<open>subdir(dir, x)\<close>: \<open>x\<close> lies strictly below \<open>dir\<close>.\<close>

definition posix_subdir :: "string \<Rightarrow> string \<Rightarrow> string \<Rightarrow> bool" where
  "posix_subdir cwd dir x =
     (let r = posix_relative cwd dir x in r \<noteq> [] \<and> hd (splitSlash r) \<noteq> ''..'')"

text \<open>
  A matcher for the glob patterns used here: \<open>**\<close> for any run of directories,
  \<open>*\<close> inside one name, one brace group of alternatives, and no match of a name
  starting with a dot unless the pattern spells the dot.
\<close>

definition expandBraces :: "string \<Rightarrow> string list" where
  "expandBraces p =
     (let pre = takeWhile (\<lambda>c. c \<noteq> CHR ''{'') p; rest = dropWhile (\<lambda>c. c \<noteq> CHR ''{'') p in
      if rest = [] then [p]
      else
        let inner = takeWhile (\<lambda>c. c \<noteq> CHR ''}'') (tl rest);
            post = drop 1 (dropWhile (\<lambda>c. c \<noteq> CHR ''}'') (tl rest))
        in map (\<lambda>alternative. pre @ alternative @ post) (splitOn CHR '','' inner))"

fun matchName :: "string \<Rightarrow> string \<Rightarrow> bool" where
  "matchName [] s = (s = [])"
| "matchName (p # ps) [] = (p = CHR ''*'' \<and> matchName ps [])"
| "matchName (p # ps) (c # cs) =
     (if p = CHR ''*'' then matchName ps (c # cs) \<or> matchName (p # ps) cs
      else c = p \<and> matchName ps cs)"

definition matchSegment :: "string \<Rightarrow> string \<Rightarrow> bool" where
  "matchSegment p s = (\<not> (take 1 s = ''.'' \<and> take 1 p \<noteq> ''.'') \<and> matchName p s)"

fun matchSegments :: "string list \<Rightarrow> string list \<Rightarrow> bool" where
  "matchSegments [] ss = (ss = [])"
| "matchSegments (p # ps) ss =
     (if p = ''**'' then
        matchSegments ps ss \<or>
        (case ss of [] \<Rightarrow> False | s # rest \<Rightarrow> take 1 s \<noteq> ''.'' \<and> matchSegments (p # ps) rest)
      else (case ss of [] \<Rightarrow> False | s # rest \<Rightarrow> matchSegment p s \<and> matchSegments ps rest))"

definition globMatch :: "string \<Rightarrow> string \<Rightarrow> bool" where
  "globMatch pattern f =
     list_ex (\<lambda>p. matchSegments (splitSlash p) (splitSlash f)) (expandBraces pattern)"

text \<open>A disk and a build graph given as association lists; a path not listed is missing.\<close>

definition diskOf :: "(string \<times> (fs_error + file_contents)) list \<Rightarrow> string \<Rightarrow> fs_error + file_contents" where
  "diskOf files p = (case map_of files p of None \<Rightarrow> Inl (FsError ''ENOENT'') | Some r \<Rightarrow> r)"

definition posixEnv ::
  "string \<Rightarrow> (string \<times> file_contents) list \<Rightarrow> (string \<times> (fs_error + file_contents)) list
     \<Rightarrow> string option \<Rightarrow> string list option \<Rightarrow> env" where
  "posixEnv root graph files inc extra =
     \<lparr>path = posix_path ''/'', subdir = posix_subdir ''/'', importFile = map_of graph,
      readFile = diskOf files, base = root, micromatch = globMatch, include = inc,
      loadPaths = extra\<rparr>"

definition emptyState :: build_state where
  "emptyState =
     \<lparr>rememberedImportContents = Map.empty, resolvedImportPaths = Map.empty,
      accesses = [], renderCalls = 0\<rparr>"

text \<open>
  A small site: the build graph rooted at \<open>/site\<close> holds two grid stylesheets and an
  empty one; the disk holds two load paths, \<open>/lib\<close> (with an unreadable file) and
  \<open>/vendor\<close>, and stale copies below \<open>/site\<close>.
\<close>

definition exampleGraph :: "(string \<times> file_contents) list" where
  "exampleGraph =
     [(''css/_grid.scss'', JBuffer ''.grid {}''),
      (''css/grid.scss'', JBuffer ''.old-grid {}''),
      (''css/empty.scss'', JString [])]"

definition exampleDisk :: "(string \<times> (fs_error + file_contents)) list" where
  "exampleDisk =
     [(''/lib/_mix.scss'', Inr (JBuffer ''@mixin m {}'')),
      (''/lib/_grid.scss'', Inr (JBuffer ''.lib-grid {}'')),
      (''/lib/_locked.scss'', Inl (FsError ''EACCES'')),
      (''/vendor/_mix.scss'', Inr (JBuffer ''@mixin v {}'')),
      (''/vendor/mix.scss'', Inr (JBuffer ''@mixin w {}'')),
      (''/site/css/empty.scss'', Inr (JBuffer ''stale'')),
      (''/site/css/_absent.scss'', Inr (JBuffer ''stale too''))]"

definition exampleEnv :: env where
  "exampleEnv = posixEnv ''/site'' exampleGraph exampleDisk None (Some [''/lib'', ''/vendor''])"

text \<open>A compiler run that fails at once, naming a file that was never imported.\<close>

definition failingRender :: "string \<Rightarrow> sass_run" where
  "failingRender source =
     Finished (Inl \<lparr>errMessage = ''boom'' @ newline @ ''noise'', errFile = ''/lib/other.scss'',
                    errLine = 3, errColumn = 7\<rparr>)"

text \<open>A compiler run that fails at once with a file token that names a member of \<open>Object.prototype\<close>.\<close>

definition prototypeRender :: "string \<Rightarrow> sass_run" where
  "prototypeRender source =
     Finished (Inl \<lparr>errMessage = ''boom'', errFile = ''constructor'', errLine = 1, errColumn = 1\<rparr>)"

text \<open>
  A compiler run that imports \<open>mix\<close> from the entry file, then \<open>grid\<close> from the file
  that answered, and fails inside the second imported file.
\<close>

definition importingRender :: "string \<Rightarrow> sass_run" where
  "importingRender source =
     Import ''mix'' ''stdin''
       (\<lambda>first. case first of
            Inl e \<Rightarrow> Finished (Inl \<lparr>errMessage = ''not found'', errFile = ''stdin'',
                                     errLine = 1, errColumn = 1\<rparr>)
          | Inr mix \<Rightarrow>
              Import ''grid'' (file mix)
                (\<lambda>second. case second of
                     Inl e \<Rightarrow> Finished (Inl \<lparr>errMessage = ''not found'', errFile = file mix,
                                              errLine = 1, errColumn = 1\<rparr>)
                   | Inr grid \<Rightarrow>
                       Finished (Inl \<lparr>errMessage = ''bad rule'' @ newline @ ''Backtrace:'',
                                      errFile = file grid, errLine = 1, errColumn = 10\<rparr>)))"

section \<open>Properties\<close>

subsection \<open>Strings and paths\<close>

lemma resolveImport_absolute:
  assumes "isAbsolute (path E) (if prev = ''stdin'' then entryFile else prev)"
  shows "resolveImport E root entryFile arg prev log =
           tryLoadPaths E root arg (if prev = ''stdin'' then entryFile else prev)
             (searchDirectories E (if prev = ''stdin'' then entryFile else prev)) log"
  using assms by (simp add: resolveImport_def Let_def)

lemma endsWith_append: "endsWith (stem @ ext) ext"
  by (simp add: endsWith_def)

lemma endsWith_split:
  assumes "endsWith s ext"
  shows "\<exists>stem. s = stem @ ext"
proof -
  have "rev s = take (length ext) (rev s) @ drop (length ext) (rev s)" by simp
  with assms have "rev s = rev ext @ drop (length ext) (rev s)" by (simp add: endsWith_def)
  then have "s = rev (drop (length ext) (rev s)) @ ext" by (metis rev_append rev_rev_ident)
  then show ?thesis ..
qed

lemma replaceEitherExtension_strips:
  "replaceEitherExtension (stem @ ''.scss'') = stem"
  "replaceEitherExtension (stem @ ''.sass'') = stem"
  by (simp_all add: replaceEitherExtension_def endsWith_def)

lemma replaceScssExt_strips: "replaceScssExt (stem @ ''.scss'') = stem"
  by (simp add: replaceScssExt_def endsWith_def)

lemma replaceScssExt_keeps_sass: "replaceScssExt (stem @ ''.sass'') = stem @ ''.sass''"
  by (simp add: replaceScssExt_def endsWith_def)

lemma posix_basename_keeps_extension:
  assumes "endsWith arg ext" and "CHR ''/'' \<notin> set ext" and "ext \<noteq> []"
  shows "endsWith (posix_basename arg) ext"
proof -
  from assms(1) obtain stem where s: "arg = stem @ ext" using endsWith_split by blast
  from assms(3) obtain c cs where r: "rev ext = c # cs" by (cases "rev ext") auto
  with assms(2) have c: "c \<noteq> CHR ''/''" by (metis list.set_intros(1) set_rev)
  have "takeWhile (\<lambda>x. x \<noteq> CHR ''/'') (rev ext @ rev stem) =
        rev ext @ takeWhile (\<lambda>x. x \<noteq> CHR ''/'') (rev stem)"
    by (rule takeWhile_append2) (use assms(2) in auto)
  then show ?thesis using s r c
    by (simp add: posix_basename_def endsWith_def)
qed

subsection \<open>Facts about the load-path loop\<close>

lemma settle_Inl: "Inl e \<in> set rs \<Longrightarrow> \<exists>e'. settle rs = Inl e'"
proof (induction rs rule: settle.induct)
  case 1
  then show ?case by simp
next
  case (2 e rs)
  then show ?case by simp
next
  case (3 x rs)
  then have "Inl e \<in> set rs" by auto
  with 3 obtain e' where "settle rs = Inl e'" by blast
  then show ?case by simp
qed

lemma settle_member:
  "settle rs = Inr found \<Longrightarrow> r \<in> set found \<Longrightarrow> Inr (Some r) \<in> set rs"
proof (induction rs arbitrary: found rule: settle.induct)
  case 1
  then show ?case by simp
next
  case (2 e rs)
  then show ?case by simp
next
  case (3 x rs)
  then show ?case
    by (auto split: sum.splits option.splits)
qed

lemma settle_found:
  "settle rs = Inr found \<Longrightarrow>
   found = concat (map (\<lambda>r. case r of Inr (Some v) \<Rightarrow> [v] | _ \<Rightarrow> []) rs)"
proof (induction rs arbitrary: found rule: settle.induct)
  case 1
  then show ?case by simp
next
  case (2 e rs)
  then show ?case by simp
next
  case (3 x rs)
  then show ?case
    by (cases "settle rs"; cases x) auto
qed

lemma checkCandidate_file:
  "snd (checkCandidate E root d c) = Inr (Some r) \<Longrightarrow> file r = resolve (path E) d c"
  by (auto simp add: checkCandidate_def Let_def split: if_splits option.splits sum.splits)

lemma existingCandidates_found:
  assumes "existingCandidates E root arg d = Inr found"
  shows "found = concat (map (\<lambda>c. case snd (checkCandidate E root d c) of
                                      Inr (Some r) \<Rightarrow> [r] | _ \<Rightarrow> [])
                          (candidates (path E) arg))"
  using settle_found [OF assms [unfolded existingCandidates_def]]
  by (simp add: comp_def)

lemma existingCandidates_files:
  assumes "existingCandidates E root arg d = Inr found"
  shows "map file found =
           map (resolve (path E) d)
             (filter (\<lambda>c. case snd (checkCandidate E root d c) of
                             Inr (Some r) \<Rightarrow> True | _ \<Rightarrow> False)
                (candidates (path E) arg))"
proof -
  have "map file (concat (map (\<lambda>c. case snd (checkCandidate E root d c) of
                                      Inr (Some r) \<Rightarrow> [r] | _ \<Rightarrow> []) cs)) =
        map (resolve (path E) d)
          (filter (\<lambda>c. case snd (checkCandidate E root d c) of
                          Inr (Some r) \<Rightarrow> True | _ \<Rightarrow> False) cs)" for cs
    by (induction cs) (auto split: sum.splits option.splits dest: checkCandidate_file)
  then show ?thesis using existingCandidates_found [OF assms] by simp
qed

lemma existingCandidates_member:
  assumes "existingCandidates E root arg d = Inr found" and "r \<in> set found"
  shows "\<exists>c\<in>set (candidates (path E) arg). snd (checkCandidate E root d c) = Inr (Some r)"
proof -
  from assms have "Inr (Some r) \<in> set (map (\<lambda>c. snd (checkCandidate E root d c)) (candidates (path E) arg))"
    unfolding existingCandidates_def by (rule settle_member)
  then show ?thesis by auto
qed

lemma tryLoadPaths_skip:
  "\<forall>d\<in>set earlier. existingCandidates E root arg d = Inr [] \<Longrightarrow>
   tryLoadPaths E root arg importerFile (earlier @ rest) log =
   tryLoadPaths E root arg importerFile rest (log @ concat (map (accessesIn E root arg) earlier))"
  by (induction earlier arbitrary: log) simp_all

subsection \<open>Candidate lists\<close>

text \<open>
  C4. A specifier whose basename does not start with \<open>_\<close> and which ends in neither
  \<open>.scss\<close> nor \<open>.sass\<close> yields, for every load path, exactly four candidates in this
  order: the \<open>_\<close>-prefixed sibling with \<open>.scss\<close>, the \<open>_\<close>-prefixed sibling with
  \<open>.sass\<close>, the specifier with \<open>.scss\<close>, the specifier with \<open>.sass\<close>.
\<close>

theorem candidates_plain:
  assumes "\<not> hasUnderscore P arg" and "\<not> endsWith arg ''.scss''" and "\<not> endsWith arg ''.sass''"
  shows "candidates P arg =
           [join P (dirname P arg) (''_'' @ basename P arg @ ''.scss''),
            join P (dirname P arg) (''_'' @ basename P arg @ ''.sass''),
            arg @ ''.scss'',
            arg @ ''.sass'']"
  using assms by (simp add: candidates_def hasExtension_def Let_def)

theorem candidates_plain_witness:
  "\<not> hasUnderscore (posix_path ''/'') ''widgets/button'' \<and>
   \<not> endsWith ''widgets/button'' ''.scss'' \<and> \<not> endsWith ''widgets/button'' ''.sass'' \<and>
   candidates (posix_path ''/'') ''widgets/button'' =
     [''widgets/_button.scss'', ''widgets/_button.sass'', ''widgets/button.scss'', ''widgets/button.sass'']"
proof -
  have h1: "\<not> hasUnderscore (posix_path ''/'') ''widgets/button''" by code_simp
  have h2: "\<not> endsWith ''widgets/button'' ''.scss''" by code_simp
  have h3: "\<not> endsWith ''widgets/button'' ''.sass''" by code_simp
  have j1: "join (posix_path ''/'') (dirname (posix_path ''/'') ''widgets/button'')
              (''_'' @ basename (posix_path ''/'') ''widgets/button'' @ ''.scss'') = ''widgets/_button.scss''"
    by code_simp
  have j2: "join (posix_path ''/'') (dirname (posix_path ''/'') ''widgets/button'')
              (''_'' @ basename (posix_path ''/'') ''widgets/button'' @ ''.sass'') = ''widgets/_button.sass''"
    by code_simp
  from candidates_plain [OF h1 h2 h3] h1 h2 h3 j1 j2 show ?thesis by simp
qed

text \<open>
  C5. A specifier whose basename does not start with \<open>_\<close> and which already ends in
  \<open>.scss\<close> or in \<open>.sass\<close> yields exactly two candidates: the \<open>_\<close>-prefixed sibling (same
  directory, \<open>_\<close> before the basename) first, then the specifier itself. The basename
  of a POSIX path keeps the extension (\<open>posix_basename_keeps_extension\<close>).
\<close>

theorem candidates_with_extension:
  assumes "\<not> hasUnderscore P arg" and "endsWith arg ''.scss'' \<or> endsWith arg ''.sass''"
  shows "candidates P arg = [join P (dirname P arg) (''_'' @ basename P arg), arg]"
  using assms by (auto simp add: candidates_def hasExtension_def Let_def)

theorem candidates_with_extension_witness:
  "\<not> hasUnderscore (posix_path ''/'') ''widgets/button.sass'' \<and>
   endsWith ''widgets/button.sass'' ''.sass'' \<and>
   candidates (posix_path ''/'') ''widgets/button.sass'' =
     [''widgets/_button.sass'', ''widgets/button.sass''] \<and>
   \<not> hasUnderscore (posix_path ''/'') ''reset.scss'' \<and>
   endsWith ''reset.scss'' ''.scss'' \<and>
   candidates (posix_path ''/'') ''reset.scss'' = [''_reset.scss'', ''reset.scss'']"
proof -
  have a1: "\<not> hasUnderscore (posix_path ''/'') ''widgets/button.sass''" by code_simp
  have a2: "endsWith ''widgets/button.sass'' ''.sass''" by code_simp
  have a3: "join (posix_path ''/'') (dirname (posix_path ''/'') ''widgets/button.sass'')
              (''_'' @ basename (posix_path ''/'') ''widgets/button.sass'') = ''widgets/_button.sass''"
    by code_simp
  have b1: "\<not> hasUnderscore (posix_path ''/'') ''reset.scss''" by code_simp
  have b2: "endsWith ''reset.scss'' ''.scss''" by code_simp
  have b3: "join (posix_path ''/'') (dirname (posix_path ''/'') ''reset.scss'')
              (''_'' @ basename (posix_path ''/'') ''reset.scss'') = ''_reset.scss''"
    by code_simp
  from candidates_with_extension [OF a1 disjI2 [OF a2]] candidates_with_extension [OF b1 disjI1 [OF b2]]
    a1 a2 a3 b1 b2 b3
  show ?thesis by simp
qed

subsection \<open>The existence check\<close>

text \<open>
  C10. When the candidate lies under the root of the build graph and the graph answers
  with nothing or with the empty string, the candidate counts as absent; the only access
  is the graph lookup, whatever the disk holds at that path.
\<close>

theorem graph_miss_is_absent:
  assumes "subdir E root (resolve (path E) loadPath c)"
    and "importFile E (relative (path E) root (resolve (path E) loadPath c)) = None \<or>
         importFile E (relative (path E) root (resolve (path E) loadPath c)) = Some (JString [])"
  shows "checkCandidate (E\<lparr>readFile := disk\<rparr>) root loadPath c =
           (GraphLookup (relative (path E) root (resolve (path E) loadPath c)), Inr None)"
  using assms by (auto simp add: checkCandidate_def Let_def)

theorem graph_miss_is_absent_witness:
  "subdir exampleEnv ''/site'' (resolve (path exampleEnv) ''/site/css'' ''empty.scss'') \<and>
   importFile exampleEnv ''css/empty.scss'' = Some (JString []) \<and>
   readFile exampleEnv ''/site/css/empty.scss'' = Inr (JBuffer ''stale'') \<and>
   checkCandidate exampleEnv ''/site'' ''/site/css'' ''empty.scss'' =
     (GraphLookup ''css/empty.scss'', Inr None) \<and>
   subdir exampleEnv ''/site'' (resolve (path exampleEnv) ''/site/css'' ''_absent.scss'') \<and>
   importFile exampleEnv ''css/_absent.scss'' = None \<and>
   readFile exampleEnv ''/site/css/_absent.scss'' = Inr (JBuffer ''stale too'') \<and>
   checkCandidate exampleEnv ''/site'' ''/site/css'' ''_absent.scss'' =
     (GraphLookup ''css/_absent.scss'', Inr None)"
proof -
  have r1: "relative (path exampleEnv) ''/site'' (resolve (path exampleEnv) ''/site/css'' ''empty.scss'')
              = ''css/empty.scss''" by code_simp
  have s1: "subdir exampleEnv ''/site'' (resolve (path exampleEnv) ''/site/css'' ''empty.scss'')"
    by code_simp
  have i1: "importFile exampleEnv ''css/empty.scss'' = Some (JString [])" by code_simp
  have d1: "readFile exampleEnv ''/site/css/empty.scss'' = Inr (JBuffer ''stale'')" by code_simp
  have r2: "relative (path exampleEnv) ''/site'' (resolve (path exampleEnv) ''/site/css'' ''_absent.scss'')
              = ''css/_absent.scss''" by code_simp
  have s2: "subdir exampleEnv ''/site'' (resolve (path exampleEnv) ''/site/css'' ''_absent.scss'')"
    by code_simp
  have i2: "importFile exampleEnv ''css/_absent.scss'' = None" by code_simp
  have d2: "readFile exampleEnv ''/site/css/_absent.scss'' = Inr (JBuffer ''stale too'')" by code_simp
  have u: "exampleEnv\<lparr>readFile := readFile exampleEnv\<rparr> = exampleEnv" by simp
  have c1: "checkCandidate exampleEnv ''/site'' ''/site/css'' ''empty.scss'' =
              (GraphLookup ''css/empty.scss'', Inr None)"
    using graph_miss_is_absent [of exampleEnv "''/site''" "''/site/css''" "''empty.scss''" "readFile exampleEnv"]
      s1 i1 unfolding r1 u by simp
  have c2: "checkCandidate exampleEnv ''/site'' ''/site/css'' ''_absent.scss'' =
              (GraphLookup ''css/_absent.scss'', Inr None)"
    using graph_miss_is_absent [of exampleEnv "''/site''" "''/site/css''" "''_absent.scss''" "readFile exampleEnv"]
      s2 i2 unfolding r2 u by simp
  from s1 i1 d1 c1 s2 i2 d2 c2 show ?thesis by (intro conjI)
qed

text \<open>
  C6. For a candidate path under the root of the build graph the check asks the graph, by
  the path relative to the root, and its answer does not depend on the disk. Otherwise it
  reads the disk: the contents of a readable file, absent on \<open>ENOENT\<close>, and any other
  read error is passed on as an error, which makes the whole resolution fail.
\<close>

theorem existence_check:
  fixes E :: env and loadPath c :: string
  defines "p \<equiv> resolve (path E) loadPath c"
  shows "(subdir E root p \<longrightarrow>
            (\<forall>disk. checkCandidate (E\<lparr>readFile := disk\<rparr>) root loadPath c =
               (GraphLookup (relative (path E) root p),
                case importFile E (relative (path E) root p) of
                  None \<Rightarrow> Inr None
                | Some b \<Rightarrow> if truthy b then Inr (Some \<lparr>contents = toString b, file = p\<rparr>)
                            else Inr None)))
       \<and> (\<not> subdir E root p \<longrightarrow>
            fst (checkCandidate E root loadPath c) = DiskRead p \<and>
            (\<forall>b. readFile E p = Inr b \<longrightarrow>
               snd (checkCandidate E root loadPath c) = Inr (Some \<lparr>contents = toString b, file = p\<rparr>)) \<and>
            (\<forall>e. readFile E p = Inl e \<longrightarrow> code e = ''ENOENT'' \<longrightarrow>
               snd (checkCandidate E root loadPath c) = Inr None) \<and>
            (\<forall>e. readFile E p = Inl e \<longrightarrow> code e \<noteq> ''ENOENT'' \<longrightarrow>
               snd (checkCandidate E root loadPath c) = Inl e \<and>
               (c \<in> set (candidates (path E) arg) \<longrightarrow>
                  (\<exists>e'. fst (tryLoadPaths E root arg importerFile (loadPath # rest) log)
                         = Inl (ReadFailure e')))))"
proof (intro conjI impI allI)
  fix disk assume "subdir E root p"
  then show "checkCandidate (E\<lparr>readFile := disk\<rparr>) root loadPath c =
               (GraphLookup (relative (path E) root p),
                case importFile E (relative (path E) root p) of
                  None \<Rightarrow> Inr None
                | Some b \<Rightarrow> if truthy b then Inr (Some \<lparr>contents = toString b, file = p\<rparr>)
                            else Inr None)"
    unfolding p_def by (simp add: checkCandidate_def Let_def)
next
  assume "\<not> subdir E root p"
  then show "fst (checkCandidate E root loadPath c) = DiskRead p"
    by (simp add: checkCandidate_def Let_def p_def)
next
  fix b assume "\<not> subdir E root p" "readFile E p = Inr b"
  then show "snd (checkCandidate E root loadPath c) = Inr (Some \<lparr>contents = toString b, file = p\<rparr>)"
    by (simp add: checkCandidate_def Let_def p_def)
next
  fix e assume "\<not> subdir E root p" "readFile E p = Inl e" "code e = ''ENOENT''"
  then show "snd (checkCandidate E root loadPath c) = Inr None"
    by (simp add: checkCandidate_def Let_def p_def)
next
  fix e assume h: "\<not> subdir E root p" "readFile E p = Inl e" "code e \<noteq> ''ENOENT''"
  then show r: "snd (checkCandidate E root loadPath c) = Inl e"
    by (simp add: checkCandidate_def Let_def p_def)
  assume "c \<in> set (candidates (path E) arg)"
  with r have "Inl e \<in> set (map (\<lambda>c. snd (checkCandidate E root loadPath c)) (candidates (path E) arg))"
    by (simp add: image_iff) (metis r)
  then have "\<exists>e'. settle (map (\<lambda>c. snd (checkCandidate E root loadPath c))
                 (candidates (path E) arg)) = Inl e'"
    by (rule settle_Inl)
  then obtain e' where "existingCandidates E root arg loadPath = Inl e'"
    unfolding existingCandidates_def ..
  then show "\<exists>e'. fst (tryLoadPaths E root arg importerFile (loadPath # rest) log) = Inl (ReadFailure e')"
    by (simp add: Let_def)
qed

theorem existence_check_witness:
  "checkCandidate (exampleEnv\<lparr>readFile := diskOf []\<rparr>) ''/site'' ''/site/css'' ''_grid.scss'' =
     (GraphLookup ''css/_grid.scss'',
      Inr (Some \<lparr>contents = ''.grid {}'', file = ''/site/css/_grid.scss''\<rparr>))
   \<and> checkCandidate exampleEnv ''/site'' ''/lib'' ''_mix.scss'' =
     (DiskRead ''/lib/_mix.scss'',
      Inr (Some \<lparr>contents = ''@mixin m {}'', file = ''/lib/_mix.scss''\<rparr>))
   \<and> readFile exampleEnv ''/lib/mix.scss'' = Inl (FsError ''ENOENT'')
   \<and> checkCandidate exampleEnv ''/site'' ''/lib'' ''mix.scss'' = (DiskRead ''/lib/mix.scss'', Inr None)
   \<and> readFile exampleEnv ''/lib/_locked.scss'' = Inl (FsError ''EACCES'')
   \<and> checkCandidate exampleEnv ''/site'' ''/lib'' ''_locked.scss'' =
     (DiskRead ''/lib/_locked.scss'', Inl (FsError ''EACCES''))
   \<and> (\<exists>e'. fst (tryLoadPaths exampleEnv ''/site'' ''locked'' ''/lib/_mix.scss'' (''/lib'' # [''/vendor'']) [])
            = Inl (ReadFailure e'))"
proof -
  have p1: "resolve (path exampleEnv) ''/site/css'' ''_grid.scss'' = ''/site/css/_grid.scss''"
    by code_simp
  have s1: "subdir exampleEnv ''/site'' ''/site/css/_grid.scss''" by code_simp
  have r1: "relative (path exampleEnv) ''/site'' ''/site/css/_grid.scss'' = ''css/_grid.scss''"
    by code_simp
  have i1: "importFile exampleEnv ''css/_grid.scss'' = Some (JBuffer ''.grid {}'')" by code_simp
  have c1: "checkCandidate (exampleEnv\<lparr>readFile := diskOf []\<rparr>) ''/site'' ''/site/css'' ''_grid.scss'' =
     (GraphLookup ''css/_grid.scss'',
      Inr (Some \<lparr>contents = ''.grid {}'', file = ''/site/css/_grid.scss''\<rparr>))"
    using existence_check [where E = exampleEnv and root = "''/site''" and loadPath = "''/site/css''"
        and c = "''_grid.scss''"] s1
    unfolding p1 r1 i1 by simp
  have p2: "resolve (path exampleEnv) ''/lib'' ''_mix.scss'' = ''/lib/_mix.scss''" by code_simp
  have s2: "\<not> subdir exampleEnv ''/site'' ''/lib/_mix.scss''" by code_simp
  have d2: "readFile exampleEnv ''/lib/_mix.scss'' = Inr (JBuffer ''@mixin m {}'')" by code_simp
  have c2: "checkCandidate exampleEnv ''/site'' ''/lib'' ''_mix.scss'' =
     (DiskRead ''/lib/_mix.scss'',
      Inr (Some \<lparr>contents = ''@mixin m {}'', file = ''/lib/_mix.scss''\<rparr>))"
    using existence_check [where E = exampleEnv and root = "''/site''" and loadPath = "''/lib''"
        and c = "''_mix.scss''"] s2 d2
    unfolding p2 by (simp add: prod_eq_iff)
  have p3: "resolve (path exampleEnv) ''/lib'' ''mix.scss'' = ''/lib/mix.scss''" by code_simp
  have s3: "\<not> subdir exampleEnv ''/site'' ''/lib/mix.scss''" by code_simp
  have d3: "readFile exampleEnv ''/lib/mix.scss'' = Inl (FsError ''ENOENT'')" by code_simp
  have c3: "checkCandidate exampleEnv ''/site'' ''/lib'' ''mix.scss'' = (DiskRead ''/lib/mix.scss'', Inr None)"
    using existence_check [where E = exampleEnv and root = "''/site''" and loadPath = "''/lib''"
        and c = "''mix.scss''"] s3 d3
    unfolding p3 by (simp add: prod_eq_iff)
  have p4: "resolve (path exampleEnv) ''/lib'' ''_locked.scss'' = ''/lib/_locked.scss''" by code_simp
  have s4: "\<not> subdir exampleEnv ''/site'' ''/lib/_locked.scss''" by code_simp
  have d4: "readFile exampleEnv ''/lib/_locked.scss'' = Inl (FsError ''EACCES'')" by code_simp
  have m4: "''_locked.scss'' \<in> set (candidates (path exampleEnv) ''locked'')" by code_simp
  note t4 = existence_check [where E = exampleEnv and root = "''/site''" and loadPath = "''/lib''"
        and c = "''_locked.scss''" and arg = "''locked''" and importerFile = "''/lib/_mix.scss''"
        and rest = "[''/vendor'']" and log = "[]"]
  have c4: "checkCandidate exampleEnv ''/site'' ''/lib'' ''_locked.scss'' =
     (DiskRead ''/lib/_locked.scss'', Inl (FsError ''EACCES''))"
    using t4 s4 d4 unfolding p4 by (simp add: prod_eq_iff)
  have f4: "\<exists>e'. fst (tryLoadPaths exampleEnv ''/site'' ''locked'' ''/lib/_mix.scss'' (''/lib'' # [''/vendor'']) [])
            = Inl (ReadFailure e')"
    using t4 s4 d4 m4 unfolding p4 by simp
  from c1 c2 d3 c3 d4 c4 f4 show ?thesis by (intro conjI)
qed

subsection \<open>Search order\<close>

text \<open>
  C1. The search directories are the importing file's directory followed by the configured
  load paths. When the directories before \<open>d\<close> hold no existing candidate and \<open>d\<close> holds
  exactly one, that file and its contents are returned, and the existence check has been
  called for the candidates of the directories up to \<open>d\<close> only, in order.
\<close>

theorem first_single_match_wins:
  assumes dirs: "searchDirectories E importerFile = earlier @ d # later"
    and none: "\<forall>d'\<in>set earlier. existingCandidates E root arg d' = Inr []"
    and one: "existingCandidates E root arg d = Inr [r]"
  shows "searchDirectories E importerFile =
           dirname (path E) importerFile # (case loadPaths E of None \<Rightarrow> [] | Some ps \<Rightarrow> ps)
       \<and> tryLoadPaths E root arg importerFile (searchDirectories E importerFile) log =
           (Inr r, log @ concat (map (accessesIn E root arg) (earlier @ [d])))
       \<and> (\<exists>c\<in>set (candidates (path E) arg). snd (checkCandidate E root d c) = Inr (Some r))"
proof (intro conjI)
  show "searchDirectories E importerFile =
          dirname (path E) importerFile # (case loadPaths E of None \<Rightarrow> [] | Some ps \<Rightarrow> ps)"
    by (simp add: searchDirectories_def)
  have "tryLoadPaths E root arg importerFile (earlier @ d # later) log =
          tryLoadPaths E root arg importerFile (d # later)
            (log @ concat (map (accessesIn E root arg) earlier))"
    using none by (rule tryLoadPaths_skip)
  also have "\<dots> = (Inr r, log @ concat (map (accessesIn E root arg) (earlier @ [d])))"
    using one by (simp add: Let_def)
  finally show "tryLoadPaths E root arg importerFile (searchDirectories E importerFile) log =
                  (Inr r, log @ concat (map (accessesIn E root arg) (earlier @ [d])))"
    using dirs by simp
  show "\<exists>c\<in>set (candidates (path E) arg). snd (checkCandidate E root d c) = Inr (Some r)"
    using existingCandidates_member [OF one] by simp
qed

theorem first_single_match_wins_witness:
  "tryLoadPaths exampleEnv ''/site'' ''mix'' ''/site/css/main.scss''
     (searchDirectories exampleEnv ''/site/css/main.scss'') [] =
     (Inr \<lparr>contents = ''@mixin m {}'', file = ''/lib/_mix.scss''\<rparr>,
      [GraphLookup ''css/_mix.scss'', GraphLookup ''css/_mix.sass'',
       GraphLookup ''css/mix.scss'', GraphLookup ''css/mix.sass'',
       DiskRead ''/lib/_mix.scss'', DiskRead ''/lib/_mix.sass'',
       DiskRead ''/lib/mix.scss'', DiskRead ''/lib/mix.sass''])"
proof -
  have dirs: "searchDirectories exampleEnv ''/site/css/main.scss'' = [''/site/css''] @ ''/lib'' # [''/vendor'']"
    by code_simp
  have none: "\<forall>d'\<in>set [''/site/css'']. existingCandidates exampleEnv ''/site'' ''mix'' d' = Inr []"
    by code_simp
  have one: "existingCandidates exampleEnv ''/site'' ''mix'' ''/lib'' =
               Inr [\<lparr>contents = ''@mixin m {}'', file = ''/lib/_mix.scss''\<rparr>]"
    by code_simp
  have log: "[] @ concat (map (accessesIn exampleEnv ''/site'' ''mix'') ([''/site/css''] @ [''/lib''])) =
      [GraphLookup ''css/_mix.scss'', GraphLookup ''css/_mix.sass'',
       GraphLookup ''css/mix.scss'', GraphLookup ''css/mix.sass'',
       DiskRead ''/lib/_mix.scss'', DiskRead ''/lib/_mix.sass'',
       DiskRead ''/lib/mix.scss'', DiskRead ''/lib/mix.sass'']"
    by code_simp
  from first_single_match_wins [OF dirs none one, of "[]"] show ?thesis
    unfolding log by (rule conjunct1 [OF conjunct2])
qed

text \<open>
  C2. When the first directory holding any existing candidate holds two or more, the
  resolution fails with the ambiguity error. Its message is the template of the source
  with the specifier as written, the importing file and, one per line, the files found:
  exactly the candidates of that directory whose existence check succeeded, resolved
  against it and in candidate order. No later directory is asked, whatever it holds.
\<close>

theorem ambiguity_is_a_hard_stop:
  assumes dirs: "searchDirectories E importerFile = earlier @ d # later"
    and none: "\<forall>d'\<in>set earlier. existingCandidates E root arg d' = Inr []"
    and many: "existingCandidates E root arg d = Inr found"
    and two: "2 \<le> length found"
  shows "tryLoadPaths E root arg importerFile (searchDirectories E importerFile) log =
           (Inl (Error
              ([CHR 0x0A] @ replicate 16 CHR '' '' @
               ''It'' @ [CHR 0x27] @ ''s not clear which file to import for '' @ [CHR 0x27] @
               ''@import '' @ [CHR 0x22] @ arg @ [CHR 0x22, CHR 0x27] @ '' in file '' @
               [CHR 0x22] @ importerFile @ [CHR 0x22] @ ''.'' @
               [CHR 0x0A] @ replicate 16 CHR '' '' @ ''Candidates:'' @
               [CHR 0x0A] @ replicate 16 CHR '' '' @ joinWith [CHR 0x0A] (map file found) @
               [CHR 0x0A] @ replicate 16 CHR '' '' @
               ''Please delete or rename all but one of these files.'' @
               [CHR 0x0A] @ replicate 14 CHR '' '')),
            log @ concat (map (accessesIn E root arg) (earlier @ [d])))
       \<and> found = concat (map (\<lambda>c. case snd (checkCandidate E root d c) of
                                       Inr (Some r) \<Rightarrow> [r] | _ \<Rightarrow> [])
                           (candidates (path E) arg))
       \<and> map file found =
           map (resolve (path E) d)
             (filter (\<lambda>c. case snd (checkCandidate E root d c) of
                             Inr (Some r) \<Rightarrow> True | _ \<Rightarrow> False)
                (candidates (path E) arg))"
proof (intro conjI)
  have "tryLoadPaths E root arg importerFile (earlier @ d # later) log =
          tryLoadPaths E root arg importerFile (d # later)
            (log @ concat (map (accessesIn E root arg) earlier))"
    using none by (rule tryLoadPaths_skip)
  also have "\<dots> = (Inl (Error (ambiguousMessage arg importerFile (map file found))),
                   log @ concat (map (accessesIn E root arg) (earlier @ [d])))"
  proof -
    from two have "length found \<noteq> 0" and "1 < length found" by auto
    with many show ?thesis by (simp add: Let_def)
  qed
  finally show "tryLoadPaths E root arg importerFile (searchDirectories E importerFile) log =
           (Inl (Error
              ([CHR 0x0A] @ replicate 16 CHR '' '' @
               ''It'' @ [CHR 0x27] @ ''s not clear which file to import for '' @ [CHR 0x27] @
               ''@import '' @ [CHR 0x22] @ arg @ [CHR 0x22, CHR 0x27] @ '' in file '' @
               [CHR 0x22] @ importerFile @ [CHR 0x22] @ ''.'' @
               [CHR 0x0A] @ replicate 16 CHR '' '' @ ''Candidates:'' @
               [CHR 0x0A] @ replicate 16 CHR '' '' @ joinWith [CHR 0x0A] (map file found) @
               [CHR 0x0A] @ replicate 16 CHR '' '' @
               ''Please delete or rename all but one of these files.'' @
               [CHR 0x0A] @ replicate 14 CHR '' '')),
            log @ concat (map (accessesIn E root arg) (earlier @ [d])))"
    using dirs by (simp add: ambiguousMessage_def newline_def)
  show "found = concat (map (\<lambda>c. case snd (checkCandidate E root d c) of
                                       Inr (Some r) \<Rightarrow> [r] | _ \<Rightarrow> [])
                           (candidates (path E) arg))"
    using many by (rule existingCandidates_found)
  show "map file found =
           map (resolve (path E) d)
             (filter (\<lambda>c. case snd (checkCandidate E root d c) of
                             Inr (Some r) \<Rightarrow> True | _ \<Rightarrow> False)
                (candidates (path E) arg))"
    using many by (rule existingCandidates_files)
qed

theorem ambiguity_is_a_hard_stop_witness:
  "tryLoadPaths exampleEnv ''/site'' ''grid'' ''/site/css/main.scss''
     (searchDirectories exampleEnv ''/site/css/main.scss'') [] =
     (Inl (Error
        ([CHR 0x0A] @ ''                It'' @ [CHR 0x27] @
         ''s not clear which file to import for '' @ [CHR 0x27] @ ''@import '' @ [CHR 0x22] @
         ''grid'' @ [CHR 0x22, CHR 0x27] @ '' in file '' @ [CHR 0x22] @
         ''/site/css/main.scss'' @ [CHR 0x22] @ ''.'' @ [CHR 0x0A] @
         ''                Candidates:'' @ [CHR 0x0A] @
         ''                /site/css/_grid.scss'' @ [CHR 0x0A] @
         ''/site/css/grid.scss'' @ [CHR 0x0A] @
         ''                Please delete or rename all but one of these files.'' @ [CHR 0x0A] @
         ''              '')),
      [GraphLookup ''css/_grid.scss'', GraphLookup ''css/_grid.sass'',
       GraphLookup ''css/grid.scss'', GraphLookup ''css/grid.sass''])
   \<and> map file [\<lparr>contents = ''.grid {}'', file = ''/site/css/_grid.scss''\<rparr>,
               \<lparr>contents = ''.old-grid {}'', file = ''/site/css/grid.scss''\<rparr>] =
       map (resolve (path exampleEnv) ''/site/css'')
         (filter (\<lambda>c. case snd (checkCandidate exampleEnv ''/site'' ''/site/css'' c) of
                         Inr (Some r) \<Rightarrow> True | _ \<Rightarrow> False)
            (candidates (path exampleEnv) ''grid''))
   \<and> candidates (path exampleEnv) ''grid'' =
       [''_grid.scss'', ''_grid.sass'', ''grid.scss'', ''grid.sass'']
   \<and> existingCandidates exampleEnv ''/site'' ''grid'' ''/lib'' =
       Inr [\<lparr>contents = ''.lib-grid {}'', file = ''/lib/_grid.scss''\<rparr>]"
proof -
  let ?found = "[\<lparr>contents = ''.grid {}'', file = ''/site/css/_grid.scss''\<rparr>,
                 \<lparr>contents = ''.old-grid {}'', file = ''/site/css/grid.scss''\<rparr>]"
  have dirs: "searchDirectories exampleEnv ''/site/css/main.scss'' = [] @ ''/site/css'' # [''/lib'', ''/vendor'']"
    by code_simp
  have none: "\<forall>d'\<in>set []. existingCandidates exampleEnv ''/site'' ''grid'' d' = Inr []"
    by simp
  have many: "existingCandidates exampleEnv ''/site'' ''grid'' ''/site/css'' = Inr ?found"
    by code_simp
  have two: "2 \<le> length ?found"
    by simp
  have msg: "[CHR 0x0A] @ replicate 16 CHR '' '' @
               ''It'' @ [CHR 0x27] @ ''s not clear which file to import for '' @ [CHR 0x27] @
               ''@import '' @ [CHR 0x22] @ ''grid'' @ [CHR 0x22, CHR 0x27] @ '' in file '' @
               [CHR 0x22] @ ''/site/css/main.scss'' @ [CHR 0x22] @ ''.'' @
               [CHR 0x0A] @ replicate 16 CHR '' '' @ ''Candidates:'' @
               [CHR 0x0A] @ replicate 16 CHR '' '' @ joinWith [CHR 0x0A] (map file ?found) @
               [CHR 0x0A] @ replicate 16 CHR '' '' @
               ''Please delete or rename all but one of these files.'' @
               [CHR 0x0A] @ replicate 14 CHR '' '' =
        [CHR 0x0A] @ ''                It'' @ [CHR 0x27] @
         ''s not clear which file to import for '' @ [CHR 0x27] @ ''@import '' @ [CHR 0x22] @
         ''grid'' @ [CHR 0x22, CHR 0x27] @ '' in file '' @ [CHR 0x22] @
         ''/site/css/main.scss'' @ [CHR 0x22] @ ''.'' @ [CHR 0x0A] @
         ''                Candidates:'' @ [CHR 0x0A] @
         ''                /site/css/_grid.scss'' @ [CHR 0x0A] @
         ''/site/css/grid.scss'' @ [CHR 0x0A] @
         ''                Please delete or rename all but one of these files.'' @ [CHR 0x0A] @
         ''              ''"
    by code_simp
  have log: "[] @ concat (map (accessesIn exampleEnv ''/site'' ''grid'') ([] @ [''/site/css''])) =
      [GraphLookup ''css/_grid.scss'', GraphLookup ''css/_grid.sass'',
       GraphLookup ''css/grid.scss'', GraphLookup ''css/grid.sass'']"
    by code_simp
  have cands: "candidates (path exampleEnv) ''grid'' =
       [''_grid.scss'', ''_grid.sass'', ''grid.scss'', ''grid.sass'']"
    by code_simp
  have later: "existingCandidates exampleEnv ''/site'' ''grid'' ''/lib'' =
       Inr [\<lparr>contents = ''.lib-grid {}'', file = ''/lib/_grid.scss''\<rparr>]"
    by code_simp
  note t = ambiguity_is_a_hard_stop [OF dirs none many two, of "[]"]
  from t [THEN conjunct1] t [THEN conjunct2, THEN conjunct2] cands later show ?thesis
    unfolding log msg by (intro conjI)
qed

text \<open>
  C3. When no search directory holds an existing candidate, the resolution fails with the
  not-found error, whose message names the specifier.
\<close>

theorem nothing_found_anywhere:
  assumes none: "\<forall>d\<in>set (searchDirectories E importerFile). existingCandidates E root arg d = Inr []"
  shows "tryLoadPaths E root arg importerFile (searchDirectories E importerFile) log =
           (Inl (Error (''File to import not found or unreadable: '' @ arg)),
            log @ concat (map (accessesIn E root arg) (searchDirectories E importerFile)))"
proof -
  have "tryLoadPaths E root arg importerFile (searchDirectories E importerFile @ []) log =
          tryLoadPaths E root arg importerFile []
            (log @ concat (map (accessesIn E root arg) (searchDirectories E importerFile)))"
    using none by (rule tryLoadPaths_skip)
  then show ?thesis by (simp add: notFoundMessage_def)
qed

theorem nothing_found_anywhere_witness:
  "tryLoadPaths exampleEnv ''/site'' ''missing.scss'' ''/site/css/main.scss''
     (searchDirectories exampleEnv ''/site/css/main.scss'') [] =
     (Inl (Error ''File to import not found or unreadable: missing.scss''),
      [GraphLookup ''css/_missing.scss'', GraphLookup ''css/missing.scss'',
       DiskRead ''/lib/_missing.scss'', DiskRead ''/lib/missing.scss'',
       DiskRead ''/vendor/_missing.scss'', DiskRead ''/vendor/missing.scss''])"
proof -
  have none: "\<forall>d\<in>set (searchDirectories exampleEnv ''/site/css/main.scss'').
                existingCandidates exampleEnv ''/site'' ''missing.scss'' d = Inr []"
    by code_simp
  have log: "[] @ concat (map (accessesIn exampleEnv ''/site'' ''missing.scss'')
                 (searchDirectories exampleEnv ''/site/css/main.scss'')) =
      [GraphLookup ''css/_missing.scss'', GraphLookup ''css/missing.scss'',
       DiskRead ''/lib/_missing.scss'', DiskRead ''/lib/missing.scss'',
       DiskRead ''/vendor/_missing.scss'', DiskRead ''/vendor/missing.scss'']"
    by code_simp
  have msg: "''File to import not found or unreadable: '' @ ''missing.scss'' =
             ''File to import not found or unreadable: missing.scss''"
    by simp
  from nothing_found_anywhere [OF none, of "[]"] show ?thesis
    unfolding log msg .
qed

subsection \<open>The build function and its errors\<close>

lemma importer_part_renderCalls:
  "renderCalls (snd (importer_part E entry arg prev st)) = renderCalls st"
  by (simp add: importer_part_def split: prod.splits sum.splits)

lemma importer_index_renderCalls:
  "renderCalls (snd (importer_index E platform entry arg prev st)) = renderCalls st"
  by (simp add: importer_index_def split: prod.splits sum.splits)

lemma runSass_renderCalls:
  assumes "\<And>arg prev st. renderCalls (snd (imp arg prev st)) = renderCalls st"
  shows "renderCalls (snd (runSass imp run st)) = renderCalls st"
proof (induction run arbitrary: st)
  case (Finished r)
  then show ?case by simp
next
  case (Import arg prev k)
  obtain answer st' where a: "imp arg prev st = (answer, st')" by (cases "imp arg prev st")
  with assms [of arg prev st] have "renderCalls st' = renderCalls st" by simp
  moreover have "renderCalls (snd (runSass imp (k answer) st')) = renderCalls st'"
    by (rule Import.IH) simp
  ultimately show ?case using a by simp
qed

lemma compile_calls_render_once:
  assumes "included_part E f" and "charAt0 (basename (path E) f) \<noteq> ''_''"
    and "toString fileContents \<noteq> []"
  shows "renderCalls (snd (tripSass_part E render f fileContents st)) = Suc (renderCalls st)"
proof -
  let ?st0 = "st\<lparr>rememberedImportContents := Map.empty, renderCalls := Suc (renderCalls st)\<rparr>"
  let ?run = "runSass (importer_part E (resolve (path E) (base E) f)) (render (toString fileContents)) ?st0"
  have "renderCalls (snd ?run) = renderCalls ?st0"
    by (rule runSass_renderCalls) (rule importer_part_renderCalls)
  then show ?thesis using assms
    by (auto simp add: tripSass_part_def Let_def split: prod.splits sum.splits)
qed

text \<open>
  C9. For an included file that is not a partial and whose contents are the empty string,
  the build function returns the mapping from the output file name to the empty string and
  leaves the state untouched: \<open>render\<close> is not called (\<open>compile_calls_render_once\<close> shows
  that a compile does count). Both files behave so, each with its own output file name.
\<close>

theorem empty_source_short_circuit:
  assumes "toString fileContents = []"
  shows "(included_index E f \<and> charAt0 (basename (path E) f) \<noteq> ''_'' \<longrightarrow>
            tripSass_index E platform render f fileContents st =
              (Output [(replaceScssExt f @ ''.css'', [])], st))
       \<and> (included_part E f \<and> charAt0 (basename (path E) f) \<noteq> ''_'' \<longrightarrow>
            tripSass_part E render f fileContents st =
              (Output [(replaceEitherExtension f @ ''.css'', [])], st))"
  using assms by (simp add: tripSass_index_def tripSass_part_def Let_def)

theorem empty_source_short_circuit_witness:
  "toString (JBuffer []) = [] \<and>
   included_index exampleEnv ''css/main.scss'' \<and>
   included_part exampleEnv ''css/main.scss'' \<and>
   charAt0 (basename (path exampleEnv) ''css/main.scss'') \<noteq> ''_'' \<and>
   tripSass_index exampleEnv ''linux'' failingRender ''css/main.scss'' (JBuffer []) emptyState =
     (Output [(''css/main.css'', [])], emptyState) \<and>
   tripSass_part exampleEnv failingRender ''css/main.scss'' (JBuffer []) emptyState =
     (Output [(''css/main.css'', [])], emptyState)"
proof -
  have e: "toString (JBuffer []) = []" by simp
  have i1: "included_index exampleEnv ''css/main.scss''" by code_simp
  have i2: "included_part exampleEnv ''css/main.scss''" by code_simp
  have np: "charAt0 (basename (path exampleEnv) ''css/main.scss'') \<noteq> ''_''" by code_simp
  have o1: "replaceScssExt ''css/main.scss'' @ ''.css'' = ''css/main.css''" by code_simp
  have o2: "replaceEitherExtension ''css/main.scss'' @ ''.css'' = ''css/main.css''" by code_simp
  from empty_source_short_circuit [OF e, of exampleEnv "''css/main.scss''" "''linux''" failingRender emptyState]
    e i1 i2 np
  show ?thesis unfolding o1 o2 by simp
qed

lemma importer_part_remembers:
  assumes "importer_part E entry arg prev st = (Inr r, st')" and "file r \<noteq> ''__proto__''"
  shows "rememberedImportContents st' (file r) = Some (contents r)"
  using assms by (auto simp add: importer_part_def jsSet_def split: prod.splits sum.splits)

text \<open>
  C7, as amended. When the compile fails, the unnamed file throws a CodeError carrying the
  first line of the compiler's message, the file (the absolute entry file for \<open>stdin\<close>,
  otherwise the compiler's file token as it is), the contents (the entry file's source for
  \<open>stdin\<close>, otherwise what the memo object yields for the token), and the line and column.
  With a memo for the token the contents are the remembered text, which is the text the
  importer answered with (\<open>importer_part_remembers\<close>). Without one the file is still the
  token and the contents are undefined, unless the token names a member of
  \<open>Object.prototype\<close>, which the lookup then finds; the translation itself does not fail.
\<close>

theorem compile_error_translation:
  assumes "included_part E f" and "charAt0 (basename (path E) f) \<noteq> ''_''"
    and "toString fileContents \<noteq> []"
    and "runSass (importer_part E (resolve (path E) (base E) f)) (render (toString fileContents))
           (st\<lparr>rememberedImportContents := Map.empty, renderCalls := Suc (renderCalls st)\<rparr>)
         = (Inl error, st')"
  shows "tripSass_part E render f fileContents st =
           (Thrown (CodeError
              \<lparr>ceMessage = firstLine (errMessage error),
               ceFile = (if errFile error = ''stdin'' then resolve (path E) (base E) f
                         else errFile error),
               ceContents =
                 (if errFile error = ''stdin'' then JText (toString fileContents)
                  else case rememberedImportContents st' (errFile error) of
                         Some text \<Rightarrow> JText text
                       | None \<Rightarrow> if errFile error \<in> set objectPrototypeNames
                                 then JInherited (errFile error) else JUndefined),
               ceLine = errLine error,
               ceColumn = errColumn error\<rparr>), st')
       \<and> (errFile error \<noteq> ''stdin'' \<and> rememberedImportContents st' (errFile error) = None \<and>
          errFile error \<notin> set objectPrototypeNames \<longrightarrow>
            (\<exists>ce. fst (tripSass_part E render f fileContents st) = Thrown (CodeError ce) \<and>
                  ceFile ce = errFile error \<and> ceContents ce = JUndefined))"
  using assms by (simp add: tripSass_part_def toCodeError_def jsGet_def Let_def)

theorem compile_error_translation_witness:
  "included_part exampleEnv ''css/main.scss'' \<and>
   charAt0 (basename (path exampleEnv) ''css/main.scss'') \<noteq> ''_'' \<and>
   toString (JBuffer ''@import mix'') \<noteq> [] \<and>
   fst (runSass (importer_part exampleEnv (resolve (path exampleEnv) (base exampleEnv) ''css/main.scss''))
          (importingRender (toString (JBuffer ''@import mix'')))
          (emptyState\<lparr>rememberedImportContents := Map.empty,
                       renderCalls := Suc (renderCalls emptyState)\<rparr>)) =
     Inl \<lparr>errMessage = ''bad rule'' @ newline @ ''Backtrace:'', errFile = ''/lib/_grid.scss'',
          errLine = 1, errColumn = 10\<rparr> \<and>
   fst (tripSass_part exampleEnv importingRender ''css/main.scss'' (JBuffer ''@import mix'') emptyState) =
     Thrown (CodeError \<lparr>ceMessage = ''bad rule'', ceFile = ''/lib/_grid.scss'',
                         ceContents = JText ''.lib-grid {}'', ceLine = 1, ceColumn = 10\<rparr>) \<and>
   fst (runSass (importer_part exampleEnv (resolve (path exampleEnv) (base exampleEnv) ''css/main.scss''))
          (failingRender (toString (JBuffer ''@import mix'')))
          (emptyState\<lparr>rememberedImportContents := Map.empty,
                       renderCalls := Suc (renderCalls emptyState)\<rparr>)) =
     Inl \<lparr>errMessage = ''boom'' @ newline @ ''noise'', errFile = ''/lib/other.scss'',
          errLine = 3, errColumn = 7\<rparr> \<and>
   ''/lib/other.scss'' \<noteq> ''stdin'' \<and>
   ''/lib/other.scss'' \<notin> set objectPrototypeNames \<and>
   (\<exists>ce. fst (tripSass_part exampleEnv failingRender ''css/main.scss'' (JBuffer ''@import mix'')
               emptyState) = Thrown (CodeError ce) \<and>
         ceFile ce = ''/lib/other.scss'' \<and> ceContents ce = JUndefined)"
proof -
  let ?st0 = "emptyState\<lparr>rememberedImportContents := Map.empty,
                       renderCalls := Suc (renderCalls emptyState)\<rparr>"
  let ?imp = "importer_part exampleEnv (resolve (path exampleEnv) (base exampleEnv) ''css/main.scss'')"
  let ?run = "runSass ?imp (importingRender (toString (JBuffer ''@import mix''))) ?st0"
  let ?err = "\<lparr>errMessage = ''bad rule'' @ newline @ ''Backtrace:'', errFile = ''/lib/_grid.scss'',
          errLine = 1, errColumn = 10\<rparr>"
  let ?run2 = "runSass ?imp (failingRender (toString (JBuffer ''@import mix''))) ?st0"
  let ?err2 = "\<lparr>errMessage = ''boom'' @ newline @ ''noise'', errFile = ''/lib/other.scss'',
          errLine = 3, errColumn = 7\<rparr>"
  have i: "included_part exampleEnv ''css/main.scss''" by code_simp
  have np: "charAt0 (basename (path exampleEnv) ''css/main.scss'') \<noteq> ''_''" by code_simp
  have ne: "toString (JBuffer ''@import mix'') \<noteq> []" by simp
  have f: "fst ?run = Inl ?err" by code_simp
  then have run: "?run = (Inl ?err, snd ?run)" by (simp add: prod_eq_iff)
  have memo: "rememberedImportContents
      (snd (runSass ?imp (importingRender ''@import mix'') ?st0))
      ''/lib/_grid.scss'' = Some ''.lib-grid {}''"
    by code_simp
  from compile_error_translation [where render = importingRender and st = emptyState
      and fileContents = "JBuffer ''@import mix''" and E = exampleEnv and f = "''css/main.scss''",
      OF i np ne run, THEN conjunct1]
  have hit: "fst (tripSass_part exampleEnv importingRender ''css/main.scss'' (JBuffer ''@import mix'') emptyState) =
     Thrown (CodeError \<lparr>ceMessage = ''bad rule'', ceFile = ''/lib/_grid.scss'',
                         ceContents = JText ''.lib-grid {}'', ceLine = 1, ceColumn = 10\<rparr>)"
    by (simp add: memo firstLine_def newline_def)
  have f2: "fst ?run2 = Inl ?err2" by code_simp
  then have run2: "?run2 = (Inl ?err2, snd ?run2)" by (simp add: prod_eq_iff)
  have memo2: "rememberedImportContents (snd ?run2) (errFile ?err2) = None"
    by code_simp
  have t1: "''/lib/other.scss'' \<noteq> ''stdin''" by simp
  have t2: "''/lib/other.scss'' \<notin> set objectPrototypeNames" by code_simp
  from compile_error_translation [where render = failingRender and st = emptyState
      and fileContents = "JBuffer ''@import mix''" and E = exampleEnv and f = "''css/main.scss''",
      OF i np ne run2, THEN conjunct2] memo2 t1 t2
  have miss: "\<exists>ce. fst (tripSass_part exampleEnv failingRender ''css/main.scss'' (JBuffer ''@import mix'')
               emptyState) = Thrown (CodeError ce) \<and>
         ceFile ce = ''/lib/other.scss'' \<and> ceContents ce = JUndefined"
    by simp
  from i np ne f hit f2 t1 t2 miss show ?thesis by (intro conjI)
qed

text \<open>
  A file token that names a member of \<open>Object.prototype\<close> has no memo either, and the
  lookup in the memo object finds the inherited member.
\<close>

lemma prototype_token_reads_inherited:
  "fst (tripSass_part exampleEnv prototypeRender ''css/main.scss'' (JBuffer ''a {}'') emptyState) =
     Thrown (CodeError \<lparr>ceMessage = ''boom'', ceFile = ''constructor'',
                         ceContents = JInherited ''constructor'', ceLine = 1, ceColumn = 1\<rparr>)"
  by code_simp

text \<open>
  C7 as stated fails: for a file token without a memo the thrown error names the token
  itself, not an unknown-file placeholder.
\<close>

theorem no_unknown_file_placeholder:
  "fst (tripSass_part exampleEnv failingRender ''css/main.scss'' (JBuffer ''a {}'') emptyState) =
     Thrown (CodeError \<lparr>ceMessage = ''boom'', ceFile = ''/lib/other.scss'', ceContents = JUndefined,
                         ceLine = 3, ceColumn = 7\<rparr>)
   \<and> rememberedImportContents
       (snd (tripSass_part exampleEnv failingRender ''css/main.scss'' (JBuffer ''a {}'') emptyState))
       ''/lib/other.scss'' = None"
  by code_simp

text \<open>
  C8. In src/index.js a \<open>.sass\<close> entry file is not matched by the default include
  pattern, and when a caller's pattern includes it the output name keeps the extension;
  the unnamed file replaces it.
\<close>

theorem sass_entry_in_index:
  "fst (tripSass_index exampleEnv ''linux'' failingRender ''css/theme.sass'' (JBuffer ''a {}'') emptyState) =
     PassThrough (JBuffer ''a {}'')
   \<and> fst (tripSass_index (exampleEnv\<lparr>include := Some ''**/*.sass''\<rparr>) ''linux'' failingRender
            ''css/theme.sass'' (JBuffer []) emptyState) =
     Output [(''css/theme.sass.css'', [])]
   \<and> fst (tripSass_part exampleEnv failingRender ''css/theme.sass'' (JBuffer []) emptyState) =
     Output [(''css/theme.css'', [])]"
  by code_simp

end
